theory Spec2Isabelle
  imports Complex_Main "HOL-Library.Multiset"
begin

section \<open>The SM-2 scheduler of the vocabulary learner\<close>

text \<open>
  This theory embeds \<^verbatim>\<open>vocabulary/spaced_repetition.py\<close> (class \<^verbatim>\<open>SpacedRepetition\<close>):
  the review updater (\<^verbatim>\<open>calculate_next_review\<close>, \<^verbatim>\<open>update_word_progress\<close>) and the
  review selector (\<^verbatim>\<open>is_due_for_review\<close>, \<^verbatim>\<open>get_priority_score\<close>,
  \<^verbatim>\<open>get_words_for_review\<close>).

  Conventions of the embedding.
  \<^item> Python \<^verbatim>\<open>int\<close> is \<open>int\<close>. Python \<^verbatim>\<open>float\<close> is \<open>real\<close>: arithmetic is exact; the
    rounding of IEEE doubles, infinities and NaN are not modelled.
  \<^item> A naive \<^verbatim>\<open>datetime\<close> is the number of microseconds since a fixed origin, a
    \<^verbatim>\<open>timedelta\<close> is a number of microseconds. Each function that calls
    \<^verbatim>\<open>datetime.now()\<close> takes the clock reading \<open>now\<close> as its first argument; all
    readings taken during one call are this one instant.
  \<^item> \<^verbatim>\<open>datetime.isoformat\<close> and \<^verbatim>\<open>datetime.fromisoformat\<close> belong to the Python
    library, not to the repository: they are parameters. \<open>fromisoformat s = None\<close> stands
    for the call raising \<^verbatim>\<open>ValueError\<close>; a parsed value is a naive datetime, as is
    every timestamp that the program writes.
  \<^item> A progress dictionary is a record of optional fields, typed as the program writes
    them; \<open>None\<close> is an absent key (for the two timestamp fields also a stored
    \<^verbatim>\<open>None\<close>), so that \<^verbatim>\<open>d.get(key, default)\<close> is \<open>dict_get (key d) dflt\<close>. The
    updater changes its argument in place and returns it; the model returns the new
    record.
  \<^item> Of a word dictionary the selector reads the key \<^verbatim>\<open>progress\<close> only; the record
    keeps the word as well, which tells pool entries apart.
  \<^item> A call that returns normally is \<open>Inr\<close> of its value, a call that raises is \<open>Inl\<close>
    of the error.
\<close>

subsection \<open>Time\<close>

type_synonym datetime = int
type_synonym timedelta = int

definition usec_per_day :: int where
  "usec_per_day = 86400000000"

definition timedelta_of_days :: "int \<Rightarrow> timedelta" where
  \<comment> \<open>\<^verbatim>\<open>timedelta(days=n)\<close>\<close>
  "timedelta_of_days n = n * usec_per_day"

definition timedelta_days :: "timedelta \<Rightarrow> int" where
  \<comment> \<open>the attribute \<^verbatim>\<open>.days\<close> of a normalised timedelta: rounds towards minus infinity\<close>
  "timedelta_days d = d div usec_per_day"

subsection \<open>Constants and data\<close>

definition INITIAL_EASINESS :: real where
  "INITIAL_EASINESS = 2.5"

definition MIN_EASINESS :: real where
  "MIN_EASINESS = 1.3"

definition MIN_INTERVAL :: int where
  "MIN_INTERVAL = 1"

definition MAX_INTERVAL :: int where
  "MAX_INTERVAL = 365"

datatype error = InvalidQuality
  \<comment> \<open>the error that the specification of the updater names; no statement of the
      source raises it\<close>

record word_progress =
  easiness :: "real option"
  interval :: "int option"
  review_count :: "int option"
  next_review :: "string option"
  last_review :: "string option"
  consecutive_correct :: "int option"
  consecutive_incorrect :: "int option"
  status :: "string option"

record word_data =
  word :: string
  progress :: "word_progress option"

definition empty_progress :: word_progress where
  \<comment> \<open>the dictionary \<^verbatim>\<open>{}\<close>\<close>
  "empty_progress =
     \<lparr>easiness = None, interval = None, review_count = None, next_review = None,
      last_review = None, consecutive_correct = None, consecutive_incorrect = None,
      status = None\<rparr>"

definition dict_get :: "'a option \<Rightarrow> 'a \<Rightarrow> 'a" where
  \<comment> \<open>\<^verbatim>\<open>d.get(key, default)\<close>\<close>
  "dict_get v dflt = (case v of None \<Rightarrow> dflt | Some x \<Rightarrow> x)"

definition py_int :: "real \<Rightarrow> int" where
  \<comment> \<open>\<^verbatim>\<open>int(x)\<close> of a float: truncation towards zero\<close>
  "py_int x = (if 0 \<le> x then \<lfloor>x\<rfloor> else \<lceil>x\<rceil>)"

subsection \<open>The review updater\<close>

definition calculate_next_review ::
  "datetime \<Rightarrow> int \<Rightarrow> real \<Rightarrow> int \<Rightarrow> int \<Rightarrow> error + (real \<times> int \<times> datetime)" where
  \<comment> \<open>arguments after the clock: \<^verbatim>\<open>quality\<close>, \<^verbatim>\<open>easiness\<close>, \<^verbatim>\<open>interval\<close>, \<^verbatim>\<open>review_count\<close>\<close>
  "calculate_next_review now quality ef ivl rc =
     (let new_easiness =
            ef + (0.1 - (5 - real_of_int quality) * (0.08 + (5 - real_of_int quality) * 0.02));
          new_easiness = max MIN_EASINESS new_easiness;
          new_interval =
            (if quality < 3 then MIN_INTERVAL
             else if rc = 0 then 1
             else if rc = 1 then 6
             else py_int (real_of_int ivl * new_easiness));
          new_interval = max MIN_INTERVAL (min MAX_INTERVAL new_interval);
          next_review_date = now + timedelta_of_days new_interval
      in Inr (new_easiness, new_interval, next_review_date))"

definition update_word_progress ::
  "(datetime \<Rightarrow> string) \<Rightarrow> datetime \<Rightarrow> word_progress \<Rightarrow> int \<Rightarrow> error + word_progress" where
  "update_word_progress isoformat now wp quality =
     (let ef = dict_get (easiness wp) INITIAL_EASINESS;
          ivl = dict_get (interval wp) MIN_INTERVAL;
          rc = dict_get (review_count wp) 0
      in case calculate_next_review now quality ef ivl rc of
           Inl e \<Rightarrow> Inl e
         | Inr (new_easiness, new_interval, next_review_date) \<Rightarrow>
             (let wp = wp\<lparr>easiness := Some new_easiness\<rparr>;
                  wp = wp\<lparr>interval := Some new_interval\<rparr>;
                  wp = wp\<lparr>next_review := Some (isoformat next_review_date)\<rparr>;
                  wp = wp\<lparr>last_review := Some (isoformat now)\<rparr>;
                  wp = wp\<lparr>review_count := Some (rc + 1)\<rparr>;
                  wp = (if quality \<ge> 3
                        then wp\<lparr>consecutive_correct :=
                                  Some (dict_get (consecutive_correct wp) 0 + 1),
                                consecutive_incorrect := Some 0\<rparr>
                        else wp\<lparr>consecutive_incorrect :=
                                  Some (dict_get (consecutive_incorrect wp) 0 + 1),
                                consecutive_correct := Some 0\<rparr>);
                  wp = (if quality \<ge> 4 \<and> rc \<ge> 3 then wp\<lparr>status := Some ''known''\<rparr>
                        else if quality \<ge> 3 then wp\<lparr>status := Some ''learning''\<rparr>
                        else if quality < 3 then wp\<lparr>status := Some ''unknown''\<rparr>
                        else wp)
              in Inr wp))"

subsection \<open>The review selector\<close>

definition is_due_for_review :: "datetime \<Rightarrow> datetime option \<Rightarrow> bool" where
  "is_due_for_review now nr = (case nr of None \<Rightarrow> True | Some t \<Rightarrow> now \<ge> t)"

definition get_priority_score ::
  "datetime \<Rightarrow> datetime option \<Rightarrow> int \<Rightarrow> real \<Rightarrow> string \<Rightarrow> real" where
  \<comment> \<open>arguments after the clock: \<^verbatim>\<open>next_review\<close>, \<^verbatim>\<open>review_count\<close>, \<^verbatim>\<open>easiness\<close>, \<^verbatim>\<open>status\<close>;
      \<^verbatim>\<open>next_review and ...\<close> is false for \<^verbatim>\<open>None\<close> and evaluates its right operand
      for every datetime\<close>
  "get_priority_score now nr rc ef st =
     (if rc = 0 then 1000.0
      else
        let score = 0.0;
            score = (case nr of
                       None \<Rightarrow> score
                     | Some t \<Rightarrow>
                         if is_due_for_review now (Some t)
                         then score + (100.0 + real_of_int (timedelta_days (now - t)) * 10.0)
                         else score);
            score = score + (3.0 - ef) * 5.0;
            score = (if st = ''unknown'' then score + 50.0
                     else if st = ''learning'' then score + 25.0
                     else score);
            score = score - real_of_int rc * 0.1
        in score)"

definition parse_next_review ::
  "(string \<Rightarrow> datetime option) \<Rightarrow> string option \<Rightarrow> datetime option" where
  \<comment> \<open>lines 184 to 190: an absent, \<^verbatim>\<open>None\<close> or empty value is falsy and is not parsed;
      the \<^verbatim>\<open>except\<close> clause leaves \<^verbatim>\<open>next_review = None\<close>\<close>
  "parse_next_review fromisoformat next_review_str =
     (case next_review_str of
        None \<Rightarrow> None
      | Some s \<Rightarrow>
          if s = [] then None
          else (case fromisoformat s of None \<Rightarrow> None | Some t \<Rightarrow> Some t))"

definition word_priority ::
  "(string \<Rightarrow> datetime option) \<Rightarrow> datetime \<Rightarrow> word_data \<Rightarrow> real" where
  \<comment> \<open>the body of the loop, lines 183 to 197\<close>
  "word_priority fromisoformat now wd =
     (let prog = dict_get (progress wd) empty_progress;
          next_review_str = next_review prog;
          nr = parse_next_review fromisoformat next_review_str
      in get_priority_score now nr
           (dict_get (review_count prog) 0)
           (dict_get (easiness prog) INITIAL_EASINESS)
           (dict_get (status prog) ''unknown''))"

definition sort_reverse :: "('a \<Rightarrow> real) \<Rightarrow> 'a list \<Rightarrow> 'a list" where
  \<comment> \<open>\<^verbatim>\<open>list.sort(key=..., reverse=True)\<close>: the list is reversed, sorted by a stable
      ascending sort and reversed again\<close>
  "sort_reverse key xs = rev (sort_key key (rev xs))"

definition slice_to :: "'a list \<Rightarrow> int \<Rightarrow> 'a list" where
  \<comment> \<open>\<^verbatim>\<open>xs[:n]\<close>: a negative bound counts from the end of the list\<close>
  "slice_to xs n =
     (if 0 \<le> n then take (nat n) xs else take (nat (int (length xs) + n)) xs)"

definition get_words_for_review ::
  "(string \<Rightarrow> datetime option) \<Rightarrow> datetime \<Rightarrow> word_data list \<Rightarrow> int \<Rightarrow> word_data list" where
  "get_words_for_review fromisoformat now all_words max_words =
     (let words_with_priority = map (\<lambda>wd. (word_priority fromisoformat now wd, wd)) all_words;
          words_with_priority = sort_reverse fst words_with_priority
      in map snd (slice_to words_with_priority max_words))"

subsection \<open>Sample inputs\<close>

text \<open>
  Concrete inputs on which the definitions are run. The origin of time is
  1970-01-01T00:00:00. The two library functions are given by finite tables that agree
  with Python on the instants and strings listed; the examples apply
  \<open>isoformat_sample\<close> to listed instants only, and \<open>fromisoformat_sample\<close> to listed
  strings and to \<open>''not a date''\<close>, which \<^verbatim>\<open>datetime.fromisoformat\<close> rejects with
  \<^verbatim>\<open>ValueError\<close>.
\<close>

definition sample_now :: datetime where
  \<comment> \<open>1970-01-11T00:00:00\<close>
  "sample_now = 10 * usec_per_day"

definition isoformat_sample :: "datetime \<Rightarrow> string" where
  "isoformat_sample t =
     the (map_of
       [(10 * usec_per_day, ''1970-01-11T00:00:00''),
        (11 * usec_per_day, ''1970-01-12T00:00:00''),
        (16 * usec_per_day, ''1970-01-17T00:00:00''),
        (25 * usec_per_day, ''1970-01-26T00:00:00'')] t)"

definition fromisoformat_sample :: "string \<Rightarrow> datetime option" where
  "fromisoformat_sample s =
     map_of
       [(''1970-01-06T00:00:00'', 5 * usec_per_day),
        (''1970-01-16T00:00:00'', 15 * usec_per_day)] s"

definition reviewed_twice :: "string option \<Rightarrow> word_progress" where
  \<comment> \<open>a progress dictionary with two reviews and the given stored \<^verbatim>\<open>next_review\<close>\<close>
  "reviewed_twice stored =
     \<lparr>easiness = Some 2.5, interval = Some 6, review_count = Some 2, next_review = stored,
      last_review = None, consecutive_correct = Some 2, consecutive_incorrect = Some 0,
      status = Some ''learning''\<rparr>"

definition w_unseen :: word_data where
  "w_unseen = \<lparr>word = ''Haus'', progress = None\<rparr>"

definition w_overdue :: word_data where
  \<comment> \<open>due since five days at \<open>sample_now\<close>\<close>
  "w_overdue = \<lparr>word = ''Baum'', progress = Some (reviewed_twice (Some ''1970-01-06T00:00:00''))\<rparr>"

definition w_not_due :: word_data where
  \<comment> \<open>due in five days at \<open>sample_now\<close>\<close>
  "w_not_due = \<lparr>word = ''Tisch'', progress = Some (reviewed_twice (Some ''1970-01-16T00:00:00''))\<rparr>"

definition w_malformed :: word_data where
  "w_malformed = \<lparr>word = ''Stuhl'', progress = Some (reviewed_twice (Some ''not a date''))\<rparr>"

definition sample_pool :: "word_data list" where
  "sample_pool = [w_not_due, w_overdue, w_malformed, w_unseen]"

section \<open>Properties of the review updater\<close>

subsection \<open>Auxiliary facts\<close>

text \<open>
  After the clamp to \<open>[MIN_INTERVAL, MAX_INTERVAL]\<close>, truncation towards zero and
  rounding down give the same interval: they differ on negative products only, which the
  clamp sends to 1.
\<close>

lemma clamp_py_int:
  "max MIN_INTERVAL (min MAX_INTERVAL (py_int x)) = max 1 (min 365 \<lfloor>x\<rfloor>)"
proof (cases "0 \<le> x")
  case True
  then show ?thesis by (simp add: py_int_def MIN_INTERVAL_def MAX_INTERVAL_def)
next
  case False
  then have "x < 0" by simp
  then have "\<lceil>x\<rceil> \<le> 0" and "\<lfloor>x\<rfloor> \<le> 0"
    by (simp_all add: ceiling_le_iff floor_le_iff)
  with False show ?thesis
    by (simp add: py_int_def MIN_INTERVAL_def MAX_INTERVAL_def)
qed

text \<open>The three results of \<open>calculate_next_review\<close>, in closed form.\<close>

lemma calculate_next_review_cases:
  obtains ne ni nd where
    "calculate_next_review now q ef ivl rc = Inr (ne, ni, nd)"
    and "ne = max 1.3 (ef + (0.1 - (5 - real_of_int q) * (0.08 + (5 - real_of_int q) * 0.02)))"
    and "ni = (if q < 3 then 1 else if rc = 0 then 1 else if rc = 1 then 6
               else max 1 (min 365 \<lfloor>real_of_int ivl * ne\<rfloor>))"
    and "nd = now + timedelta_of_days ni"
proof -
  let ?ne = "max MIN_EASINESS
               (ef + (0.1 - (5 - real_of_int q) * (0.08 + (5 - real_of_int q) * 0.02)))"
  let ?raw = "if q < 3 then MIN_INTERVAL else if rc = 0 then 1 else if rc = 1 then 6
              else py_int (real_of_int ivl * ?ne)"
  let ?ni = "max MIN_INTERVAL (min MAX_INTERVAL ?raw)"
  have "calculate_next_review now q ef ivl rc = Inr (?ne, ?ni, now + timedelta_of_days ?ni)"
    by (simp only: calculate_next_review_def Let_def)
  moreover have "?ne = max 1.3 (ef + (0.1 - (5 - real_of_int q) * (0.08 + (5 - real_of_int q) * 0.02)))"
    by (simp only: MIN_EASINESS_def)
  moreover have "?ni = (if q < 3 then 1 else if rc = 0 then 1 else if rc = 1 then 6
               else max 1 (min 365 \<lfloor>real_of_int ivl * ?ne\<rfloor>))"
  proof -
    consider "q < 3" | "\<not> q < 3" "rc = 0" | "\<not> q < 3" "rc = 1" | "\<not> q < 3" "rc \<noteq> 0" "rc \<noteq> 1"
      by blast
    then show ?thesis
    proof cases
      case 1
      then show ?thesis by (simp add: MIN_INTERVAL_def MAX_INTERVAL_def)
    next
      case 2
      then show ?thesis by (simp add: MIN_INTERVAL_def MAX_INTERVAL_def)
    next
      case 3
      then show ?thesis by (simp add: MIN_INTERVAL_def MAX_INTERVAL_def)
    next
      case 4
      then show ?thesis by (simp only: if_False clamp_py_int)
    qed
  qed
  ultimately show thesis using that by blast
qed

text \<open>The dictionary that \<open>update_word_progress\<close> returns, field by field.\<close>

lemma update_word_progress_eq:
  assumes "calculate_next_review now q (dict_get (easiness wp) INITIAL_EASINESS)
             (dict_get (interval wp) MIN_INTERVAL) (dict_get (review_count wp) 0)
           = Inr (ne, ni, nd)"
  shows "update_word_progress isoformat now wp q =
     Inr (wp\<lparr>easiness := Some ne, interval := Some ni,
             review_count := Some (dict_get (review_count wp) 0 + 1),
             next_review := Some (isoformat nd), last_review := Some (isoformat now),
             consecutive_correct :=
               Some (if 3 \<le> q then dict_get (consecutive_correct wp) 0 + 1 else 0),
             consecutive_incorrect :=
               Some (if 3 \<le> q then 0 else dict_get (consecutive_incorrect wp) 0 + 1),
             status :=
               Some (if 4 \<le> q \<and> 3 \<le> dict_get (review_count wp) 0 then ''known''
                     else if 3 \<le> q then ''learning'' else ''unknown'')\<rparr>)"
  unfolding update_word_progress_def Let_def using assms
  by (cases wp) simp

lemma update_word_progress_cases:
  obtains wp' ne ni nd where
    "calculate_next_review now q (dict_get (easiness wp) INITIAL_EASINESS)
       (dict_get (interval wp) MIN_INTERVAL) (dict_get (review_count wp) 0) = Inr (ne, ni, nd)"
    and "update_word_progress isoformat now wp q = Inr wp'"
    and "easiness wp' = Some ne"
    and "interval wp' = Some ni"
    and "review_count wp' = Some (dict_get (review_count wp) 0 + 1)"
    and "consecutive_correct wp' =
           Some (if 3 \<le> q then dict_get (consecutive_correct wp) 0 + 1 else 0)"
    and "consecutive_incorrect wp' =
           Some (if 3 \<le> q then 0 else dict_get (consecutive_incorrect wp) 0 + 1)"
    and "status wp' =
           Some (if 4 \<le> q \<and> 3 \<le> dict_get (review_count wp) 0 then ''known''
                 else if 3 \<le> q then ''learning'' else ''unknown'')"
    and "ne = max 1.3 (dict_get (easiness wp) INITIAL_EASINESS +
              (0.1 - (5 - real_of_int q) * (0.08 + (5 - real_of_int q) * 0.02)))"
    and "ni = (if q < 3 then 1
               else if dict_get (review_count wp) 0 = 0 then 1
               else if dict_get (review_count wp) 0 = 1 then 6
               else max 1 (min 365 \<lfloor>real_of_int (dict_get (interval wp) MIN_INTERVAL) * ne\<rfloor>))"
proof -
  obtain ne ni nd where
    c: "calculate_next_review now q (dict_get (easiness wp) INITIAL_EASINESS)
       (dict_get (interval wp) MIN_INTERVAL) (dict_get (review_count wp) 0) = Inr (ne, ni, nd)"
    and ne: "ne = max 1.3 (dict_get (easiness wp) INITIAL_EASINESS +
              (0.1 - (5 - real_of_int q) * (0.08 + (5 - real_of_int q) * 0.02)))"
    and ni: "ni = (if q < 3 then 1
               else if dict_get (review_count wp) 0 = 0 then 1
               else if dict_get (review_count wp) 0 = 1 then 6
               else max 1 (min 365 \<lfloor>real_of_int (dict_get (interval wp) MIN_INTERVAL) * ne\<rfloor>))"
    and "nd = now + timedelta_of_days ni"
    by (rule calculate_next_review_cases)
  show thesis
    by (rule that [OF c update_word_progress_eq [OF c, of isoformat] _ _ _ _ _ _ ne ni]) simp_all
qed

text \<open>The equations that evaluate the sample inputs.\<close>

lemmas sample_defs =
  sample_now_def isoformat_sample_def fromisoformat_sample_def reviewed_twice_def
  w_unseen_def w_overdue_def w_not_due_def w_malformed_def sample_pool_def
  empty_progress_def dict_get_def usec_per_day_def timedelta_of_days_def timedelta_days_def
  INITIAL_EASINESS_def MIN_EASINESS_def MIN_INTERVAL_def MAX_INTERVAL_def

subsection \<open>Out-of-range quality\<close>



subsection \<open>Easiness factor\<close>

text \<open>
  Claim C3. For every prior easiness factor and every quality in \<open>[0,5]\<close>, the updater
  sets the new easiness to
  \<open>max 1.3 (EF + (0.1 - (5 - quality) * (0.08 + (5 - quality) * 0.02)))\<close>, where \<open>EF\<close> is
  the stored easiness (2.5 when the key is absent). Hence the result is at least 1.3; it
  is never below the value of the formula, so no upper cap is applied; and for every
  bound there is a prior easiness whose update exceeds the bound.
\<close>

theorem easiness_update_floored_not_capped:
  assumes "0 \<le> quality" and "quality \<le> 5"
  shows "\<exists>wp' ne ni nd.
     calculate_next_review now quality (dict_get (easiness wp) INITIAL_EASINESS)
       (dict_get (interval wp) MIN_INTERVAL) (dict_get (review_count wp) 0) = Inr (ne, ni, nd) \<and>
     update_word_progress isoformat now wp quality = Inr wp' \<and>
     easiness wp' = Some ne \<and>
     ne = max 1.3 (dict_get (easiness wp) INITIAL_EASINESS +
            (0.1 - (5 - real_of_int quality) * (0.08 + (5 - real_of_int quality) * 0.02))) \<and>
     1.3 \<le> ne \<and>
     dict_get (easiness wp) INITIAL_EASINESS +
            (0.1 - (5 - real_of_int quality) * (0.08 + (5 - real_of_int quality) * 0.02)) \<le> ne \<and>
     (\<forall>bound. \<exists>ef ne' ni' nd'.
        calculate_next_review now quality ef ivl rc = Inr (ne', ni', nd') \<and> bound < ne')"
proof -
  let ?d = "0.1 - (5 - real_of_int quality) * (0.08 + (5 - real_of_int quality) * 0.02)"
  obtain wp' ne ni nd where
    c: "calculate_next_review now quality (dict_get (easiness wp) INITIAL_EASINESS)
       (dict_get (interval wp) MIN_INTERVAL) (dict_get (review_count wp) 0) = Inr (ne, ni, nd)"
    and u: "update_word_progress isoformat now wp quality = Inr wp'"
    and e: "easiness wp' = Some ne"
    and ne: "ne = max 1.3 (dict_get (easiness wp) INITIAL_EASINESS + ?d)"
    using update_word_progress_cases [of now quality wp isoformat] by metis
  have unbounded: "\<exists>ef ne' ni' nd'.
        calculate_next_review now quality ef ivl rc = Inr (ne', ni', nd') \<and> bound < ne'" for bound
  proof -
    obtain ne' ni' nd' where "calculate_next_review now quality (bound + 1 - ?d) ivl rc = Inr (ne', ni', nd')"
      and "ne' = max 1.3 ((bound + 1 - ?d) + ?d)"
      using calculate_next_review_cases [of now quality "bound + 1 - ?d" ivl rc] by metis
    moreover have "bound < max 1.3 ((bound + 1 - ?d) + ?d)" by simp
    ultimately show ?thesis by blast
  qed
  have "1.3 \<le> ne" and "dict_get (easiness wp) INITIAL_EASINESS + ?d \<le> ne"
    by (simp_all add: ne)
  with c u e ne unbounded show ?thesis by blast
qed

text \<open>
  Scenario C of the specification: easiness 2.0, interval 10, four reviews, quality 0.
  The formula gives \<open>2.0 - 0.8 = 1.2\<close>, floored at 1.3.
\<close>

theorem easiness_update_witness:
  "(0::int) \<le> 0 \<and> (0::int) \<le> 5 \<and>
   (\<exists>wp'. update_word_progress isoformat_sample sample_now
            (empty_progress\<lparr>easiness := Some 2.0, interval := Some 10, review_count := Some 4\<rparr>) 0
          = Inr wp' \<and> easiness wp' = Some 1.3)"
proof -
  have q: "(0::int) \<le> 0" "(0::int) \<le> 5" by simp_all
  obtain wp' ne where
    "update_word_progress isoformat_sample sample_now
       (empty_progress\<lparr>easiness := Some 2.0, interval := Some 10, review_count := Some 4\<rparr>) 0
     = Inr wp'"
    and "easiness wp' = Some ne"
    and "ne = max 1.3 (dict_get (easiness
             (empty_progress\<lparr>easiness := Some 2.0, interval := Some 10, review_count := Some 4\<rparr>))
             INITIAL_EASINESS +
            (0.1 - (5 - real_of_int 0) * (0.08 + (5 - real_of_int 0) * 0.02)))"
    using easiness_update_floored_not_capped [OF q, of sample_now _ isoformat_sample] by blast
  then show ?thesis using q by (simp add: sample_defs)
qed

subsection \<open>Interval\<close>



subsection \<open>Status\<close>

text \<open>
  Claim C5. For every prior state and every quality in \<open>[0,5]\<close>, the new status is
  decided with the review count as it was before the increment: it is \<open>known\<close> exactly
  when \<open>quality \<ge> 4\<close> and the prior review count is at least 3; otherwise it is
  \<open>learning\<close> exactly when \<open>quality \<ge> 3\<close>; otherwise (\<open>quality < 3\<close>) it is \<open>unknown\<close>,
  whatever the prior status was.
\<close>

theorem status_uses_prior_review_count:
  assumes "0 \<le> quality" and "quality \<le> 5"
  shows "\<exists>wp'.
     update_word_progress isoformat now wp quality = Inr wp' \<and>
     review_count wp' = Some (dict_get (review_count wp) 0 + 1) \<and>
     status wp' =
       Some (if 4 \<le> quality \<and> 3 \<le> dict_get (review_count wp) 0 then ''known''
             else if 3 \<le> quality then ''learning'' else ''unknown'') \<and>
     (status wp' = Some ''known'') = (4 \<le> quality \<and> 3 \<le> dict_get (review_count wp) 0) \<and>
     (status wp' = Some ''learning'') =
        (3 \<le> quality \<and> \<not> (4 \<le> quality \<and> 3 \<le> dict_get (review_count wp) 0)) \<and>
     (status wp' = Some ''unknown'') = (quality < 3)"
proof -
  obtain wp' ne ni nd where
    u: "update_word_progress isoformat now wp quality = Inr wp'"
    and r: "review_count wp' = Some (dict_get (review_count wp) 0 + 1)"
    and s: "status wp' =
           Some (if 4 \<le> quality \<and> 3 \<le> dict_get (review_count wp) 0 then ''known''
                 else if 3 \<le> quality then ''learning'' else ''unknown'')"
    using update_word_progress_cases [of now quality wp isoformat] by metis
  from s have "(status wp' = Some ''known'') = (4 \<le> quality \<and> 3 \<le> dict_get (review_count wp) 0)"
    and "(status wp' = Some ''learning'') =
        (3 \<le> quality \<and> \<not> (4 \<le> quality \<and> 3 \<le> dict_get (review_count wp) 0))"
    and "(status wp' = Some ''unknown'') = (quality < 3)"
    by auto
  with u r s show ?thesis by blast
qed

text \<open>
  Scenario A of the specification, on a word whose stored status is \<open>known\<close>: easiness
  2.5, interval 1, no review yet, quality 5. The prior review count 0 is below 3, so the
  new status is \<open>learning\<close>, and the review count becomes 1.
\<close>

theorem status_first_review_witness:
  "(0::int) \<le> 5 \<and> (5::int) \<le> 5 \<and>
   (\<exists>wp'. update_word_progress isoformat_sample sample_now
             (empty_progress\<lparr>easiness := Some 2.5, interval := Some 1, review_count := Some 0,
                status := Some ''known''\<rparr>) 5 = Inr wp' \<and>
          status wp' = Some ''learning'' \<and> review_count wp' = Some 1)"
proof -
  have q: "(0::int) \<le> 5" "(5::int) \<le> 5" by simp_all
  obtain wp' where
    "update_word_progress isoformat_sample sample_now
       (empty_progress\<lparr>easiness := Some 2.5, interval := Some 1, review_count := Some 0,
          status := Some ''known''\<rparr>) 5 = Inr wp'"
    and "review_count wp' =
       Some (dict_get (review_count (empty_progress\<lparr>easiness := Some 2.5, interval := Some 1,
          review_count := Some 0, status := Some ''known''\<rparr>)) 0 + 1)"
    and "status wp' =
       Some (if 4 \<le> (5::int) \<and> 3 \<le> dict_get (review_count (empty_progress\<lparr>easiness := Some 2.5,
          interval := Some 1, review_count := Some 0, status := Some ''known''\<rparr>)) 0
             then ''known'' else if 3 \<le> (5::int) then ''learning'' else ''unknown'')"
    using status_uses_prior_review_count [OF q, of isoformat_sample sample_now] by blast
  then show ?thesis using q by (simp add: sample_defs)
qed

subsection \<open>Review count and momentum counters\<close>

text \<open>
  Claim C6. Every call of the updater, for every integer quality, increments the review
  count by exactly 1 (an absent count reads as 0). If \<open>quality \<ge> 3\<close>, then
  \<open>consecutive_correct\<close> becomes its prior value plus 1 and \<open>consecutive_incorrect\<close>
  becomes 0; otherwise \<open>consecutive_incorrect\<close> becomes its prior value plus 1 and
  \<open>consecutive_correct\<close> becomes 0. Hence after the update one of the two counters is 0.
\<close>

theorem review_count_and_momentum_counters:
  "\<exists>wp'.
     update_word_progress isoformat now wp quality = Inr wp' \<and>
     review_count wp' = Some (dict_get (review_count wp) 0 + 1) \<and>
     consecutive_correct wp' =
       Some (if 3 \<le> quality then dict_get (consecutive_correct wp) 0 + 1 else 0) \<and>
     consecutive_incorrect wp' =
       Some (if 3 \<le> quality then 0 else dict_get (consecutive_incorrect wp) 0 + 1) \<and>
     (consecutive_correct wp' = Some 0 \<or> consecutive_incorrect wp' = Some 0)"
proof -
  obtain wp' ne ni nd where
    u: "update_word_progress isoformat now wp quality = Inr wp'"
    and r: "review_count wp' = Some (dict_get (review_count wp) 0 + 1)"
    and cc: "consecutive_correct wp' =
           Some (if 3 \<le> quality then dict_get (consecutive_correct wp) 0 + 1 else 0)"
    and ci: "consecutive_incorrect wp' =
           Some (if 3 \<le> quality then 0 else dict_get (consecutive_incorrect wp) 0 + 1)"
    using update_word_progress_cases [of now quality wp isoformat] by metis
  from cc ci have "consecutive_correct wp' = Some 0 \<or> consecutive_incorrect wp' = Some 0"
    by simp
  with u r cc ci show ?thesis by blast
qed

section \<open>Properties of the review selector\<close>

subsection \<open>Auxiliary facts\<close>

text \<open>
  Sorting the pairs of priority and word by their first component is sorting the words
  by their priority, so the selector returns a slice of the pool sorted by
  \<open>word_priority\<close>.
\<close>

lemma insort_key_decorated:
  "insort_key fst (f x, x) (map (\<lambda>y. (f y, y)) ys) = map (\<lambda>y. (f y, y)) (insort_key f x ys)"
  by (induction ys) simp_all

lemma sort_key_decorated:
  "sort_key fst (map (\<lambda>y. (f y, y)) xs) = map (\<lambda>y. (f y, y)) (sort_key f xs)"
  by (induction xs) (simp_all add: insort_key_decorated)

lemma sort_reverse_decorated:
  "sort_reverse fst (map (\<lambda>y. (f y, y)) xs) = map (\<lambda>y. (f y, y)) (sort_reverse f xs)"
  by (simp add: sort_reverse_def rev_map sort_key_decorated)

lemma slice_to_map: "slice_to (map g xs) n = map g (slice_to xs n)"
  by (simp add: slice_to_def take_map)

lemma get_words_for_review_eq:
  "get_words_for_review fromisoformat now all_words max_words =
     slice_to (sort_reverse (word_priority fromisoformat now) all_words) max_words"
  by (simp add: get_words_for_review_def Let_def sort_reverse_decorated slice_to_map comp_def)

lemma length_sort_reverse: "length (sort_reverse key xs) = length xs"
  by (simp add: sort_reverse_def)

lemma mset_sort_reverse: "mset (sort_reverse key xs) = mset xs"
  by (simp add: sort_reverse_def)

lemma sorted_sort_reverse: "sorted_wrt (\<lambda>a b. key b \<le> key a) (sort_reverse key xs)"
proof -
  have "sorted (map key (sort_key key (rev xs)))" by simp
  then have "sorted_wrt (\<lambda>a b. key a \<le> key b) (sort_key key (rev xs))"
    by (simp add: sorted_map)
  then show ?thesis
    by (simp add: sort_reverse_def sorted_wrt_rev)
qed

lemma stable_sort_reverse:
  "filter (\<lambda>x. key x = k) (sort_reverse key xs) = filter (\<lambda>x. key x = k) xs"
proof -
  have "filter (\<lambda>x. key x = k) (sort_reverse key xs)
      = rev (filter (\<lambda>x. key x = k) (sort_key key (rev xs)))"
    by (simp add: sort_reverse_def rev_filter)
  also have "\<dots> = rev (filter (\<lambda>x. key x = k) (rev xs))"
    by (simp only: sort_key_stable)
  also have "\<dots> = filter (\<lambda>x. key x = k) xs"
    by (simp add: rev_filter)
  finally show ?thesis .
qed

lemma slice_to_take: "\<exists>m. slice_to xs n = take m xs"
  by (auto simp: slice_to_def)

lemma word_priority_unreviewed:
  assumes "dict_get (review_count (dict_get (progress wd) empty_progress)) 0 = 0"
  shows "word_priority fromisoformat now wd = 1000"
  using assms by (simp add: word_priority_def Let_def get_priority_score_def)

lemma sorted_get_words_for_review:
  "sorted_wrt (\<lambda>a b. word_priority fromisoformat now b \<le> word_priority fromisoformat now a)
     (get_words_for_review fromisoformat now pool max_words)"
proof -
  obtain m where "get_words_for_review fromisoformat now pool max_words =
      take m (sort_reverse (word_priority fromisoformat now) pool)"
    using slice_to_take [of "sort_reverse (word_priority fromisoformat now) pool" max_words]
    by (auto simp: get_words_for_review_eq)
  then show ?thesis
    by (simp add: sorted_wrt_take sorted_sort_reverse)
qed

lemma get_words_for_review_whole_pool:
  assumes "int (length pool) \<le> max_words"
  shows "set (get_words_for_review fromisoformat now pool max_words) = set pool"
proof -
  let ?S = "sort_reverse (word_priority fromisoformat now) pool"
  from assms have "0 \<le> max_words" and "length ?S \<le> nat max_words"
    by (simp_all add: length_sort_reverse)
  then have "get_words_for_review fromisoformat now pool max_words = ?S"
    by (simp add: get_words_for_review_eq slice_to_def)
  moreover have "set ?S = set pool"
    using mset_sort_reverse [of "word_priority fromisoformat now" pool] by (rule mset_eq_setD)
  ultimately show ?thesis by simp
qed

text \<open>The sample pool, evaluated.\<close>

lemma sample_priorities:
  "word_priority fromisoformat_sample sample_now w_not_due = 27.3"
  "word_priority fromisoformat_sample sample_now w_overdue = 177.3"
  "word_priority fromisoformat_sample sample_now w_malformed = 27.3"
  "word_priority fromisoformat_sample sample_now w_unseen = 1000"
  by (simp_all add: word_priority_def parse_next_review_def get_priority_score_def
      is_due_for_review_def sample_defs)

lemma sample_sorted:
  "sort_reverse (word_priority fromisoformat_sample sample_now) sample_pool =
     [w_unseen, w_overdue, w_not_due, w_malformed]"
  by (simp add: sort_reverse_def sample_pool_def sample_priorities)

lemma sample_selection:
  "get_words_for_review fromisoformat_sample sample_now sample_pool 4 =
     [w_unseen, w_overdue, w_not_due, w_malformed]"
  "get_words_for_review fromisoformat_sample sample_now sample_pool 2 = [w_unseen, w_overdue]"
  "get_words_for_review fromisoformat_sample sample_now sample_pool (- 1) =
     [w_unseen, w_overdue, w_not_due]"
  by (simp_all add: get_words_for_review_eq sample_sorted slice_to_def)

subsection \<open>Priority of a word without a next review date\<close>

text \<open>
  Claim C2, as amended. For every word with review count at least 1 whose next review
  date is null, the priority score has no due-word term: it is
  \<open>(3.0 - easiness) * 5.0\<close> plus the status bonus minus \<open>review_count * 0.1\<close>, although
  \<open>is_due_for_review\<close> reports the word as due. It is therefore exactly
  \<open>100.0 + 10.0 * 0\<close> below the score of the same word with a next review date equal to
  the current time.
\<close>

theorem null_next_review_has_no_due_term:
  assumes "1 \<le> rc"
  shows "is_due_for_review now None \<and>
     get_priority_score now None rc ef st =
       (3.0 - ef) * 5.0
       + (if st = ''unknown'' then 50.0 else if st = ''learning'' then 25.0 else 0.0)
       - real_of_int rc * 0.1 \<and>
     get_priority_score now (Some now) rc ef st =
       (100.0 + 10.0 * 0) + get_priority_score now None rc ef st"
  using assms
  by (simp add: get_priority_score_def is_due_for_review_def timedelta_days_def Let_def)

text \<open>Two reviews, easiness 2.5, status \<open>learning\<close>: 27.3 without a date, 127.3 when due now.\<close>

theorem null_next_review_witness:
  "(1::int) \<le> 2 \<and> get_priority_score sample_now None 2 2.5 ''learning'' = 27.3 \<and>
   get_priority_score sample_now (Some sample_now) 2 2.5 ''learning'' = 127.3"
  using null_next_review_has_no_due_term [of 2 sample_now "2.5" "''learning''"]
  by simp

text \<open>
  Claim C2, as stated, fails for a word with one review, easiness 2.5 and status
  \<open>known\<close>: with a null next review date its score is 2.4, not the 102.4 that the
  due-word term would give and that the same word gets when its date is the current
  time.
\<close>

theorem null_next_review_not_scored_as_due:
  "get_priority_score sample_now None 1 2.5 ''known'' = 2.4 \<and>
   get_priority_score sample_now (Some sample_now) 1 2.5 ''known'' = 102.4 \<and>
   get_priority_score sample_now None 1 2.5 ''known''
     \<noteq> (100.0 + 10.0 * 0) + (3.0 - 2.5) * 5.0 + 0.0 - real_of_int 1 * 0.1"
  by (simp add: get_priority_score_def is_due_for_review_def timedelta_days_def Let_def)

subsection \<open>Never-reviewed words\<close>

text \<open>
  Claim C7. For every word state with review count 0, \<open>get_priority_score\<close> returns
  exactly 1000.0, whatever the next review date, the easiness and the status are.
  Therefore, in the list that \<open>get_words_for_review\<close> returns for any pool, a word with
  review count 0 (read from its progress dictionary, 0 when absent) stands before every
  word whose priority is below 1000.0; this covers every such word with review count at
  least 1.
\<close>

theorem never_reviewed_scores_1000_and_sorts_first:
  "get_priority_score now nr 0 ef st = 1000.0 \<and>
   (\<forall>i j. i < length (get_words_for_review fromisoformat now pool max_words) \<and>
          j < length (get_words_for_review fromisoformat now pool max_words) \<and>
          dict_get (review_count (dict_get (progress
            (get_words_for_review fromisoformat now pool max_words ! i)) empty_progress)) 0 = 0 \<and>
          word_priority fromisoformat now
            (get_words_for_review fromisoformat now pool max_words ! j) < 1000.0
        \<longrightarrow> word_priority fromisoformat now
              (get_words_for_review fromisoformat now pool max_words ! i) = 1000.0 \<and> i < j)"
proof (intro conjI allI impI)
  show "get_priority_score now nr 0 ef st = 1000.0"
    by (simp add: get_priority_score_def)
next
  fix i j
  let ?res = "get_words_for_review fromisoformat now pool max_words"
  let ?P = "word_priority fromisoformat now"
  assume a: "i < length ?res \<and> j < length ?res \<and>
     dict_get (review_count (dict_get (progress (?res ! i)) empty_progress)) 0 = 0 \<and>
     ?P (?res ! j) < 1000.0"
  then have pi: "?P (?res ! i) = 1000" by (simp add: word_priority_unreviewed)
  then show "?P (?res ! i) = 1000.0" by simp
  have s: "sorted_wrt (\<lambda>a b. ?P b \<le> ?P a) ?res"
    by (rule sorted_get_words_for_review)
  show "i < j"
  proof (rule ccontr)
    assume "\<not> i < j"
    then consider "i = j" | "j < i" by linarith
    then show False
    proof cases
      case 1
      with a pi show False by simp
    next
      case 2
      with s a have "?P (?res ! i) \<le> ?P (?res ! j)"
        by (simp add: sorted_wrt_iff_nth_less)
      with a pi show False by simp
    qed
  qed
qed

text \<open>
  In the sample pool the never-reviewed word is at position 0 and a word that is not
  due, with priority 27.3, at position 2.
\<close>

theorem never_reviewed_sorts_first_witness:
  "get_words_for_review fromisoformat_sample sample_now sample_pool 4 ! 0 = w_unseen \<and>
   get_words_for_review fromisoformat_sample sample_now sample_pool 4 ! 2 = w_not_due \<and>
   dict_get (review_count (dict_get (progress w_unseen) empty_progress)) 0 = 0 \<and>
   word_priority fromisoformat_sample sample_now w_not_due < 1000.0 \<and>
   word_priority fromisoformat_sample sample_now w_unseen = 1000.0 \<and>
   (0::nat) < 2"
proof -
  let ?res = "get_words_for_review fromisoformat_sample sample_now sample_pool 4"
  have hyps: "0 < length ?res \<and> 2 < length ?res \<and>
      dict_get (review_count (dict_get (progress (?res ! 0)) empty_progress)) 0 = 0 \<and>
      word_priority fromisoformat_sample sample_now (?res ! 2) < 1000.0"
    by (simp add: sample_selection sample_priorities) (simp add: sample_defs)
  have "word_priority fromisoformat_sample sample_now (?res ! 0) = 1000.0 \<and> (0::nat) < 2"
    using never_reviewed_scores_1000_and_sorts_first
      [of sample_now None "2.5" "''unknown''" fromisoformat_sample sample_pool 4] hyps
    by blast
  with hyps show ?thesis by (simp add: sample_selection)
qed

subsection \<open>Selection\<close>

text \<open>
  Claim C8. For every pool and every \<open>max_words \<ge> 0\<close>, \<open>get_words_for_review\<close> returns
  exactly the first \<open>min max_words (length pool)\<close> entries of the sorted pool. The sorted
  pool, which is what the call with \<open>max_words = length pool\<close> returns, is a permutation
  of the pool, is in descending order of priority, and keeps entries of equal priority
  in their input order (for each priority value, the entries of that priority form the
  same list in the sorted pool as in the input). In particular \<open>max_words = 0\<close> yields
  the empty list.
\<close>

theorem selection_is_prefix_of_stable_descending_sort:
  assumes "0 \<le> max_words"
  shows "\<exists>sorted_pool.
     get_words_for_review fromisoformat now pool (int (length pool)) = sorted_pool \<and>
     mset sorted_pool = mset pool \<and>
     sorted_wrt (\<lambda>a b. word_priority fromisoformat now b \<le> word_priority fromisoformat now a)
       sorted_pool \<and>
     (\<forall>p. filter (\<lambda>w. word_priority fromisoformat now w = p) sorted_pool =
          filter (\<lambda>w. word_priority fromisoformat now w = p) pool) \<and>
     get_words_for_review fromisoformat now pool max_words =
       take (min (nat max_words) (length pool)) sorted_pool \<and>
     length (get_words_for_review fromisoformat now pool max_words) =
       min (nat max_words) (length pool) \<and>
     get_words_for_review fromisoformat now pool 0 = []"
proof -
  let ?P = "word_priority fromisoformat now"
  let ?S = "sort_reverse ?P pool"
  have full: "get_words_for_review fromisoformat now pool (int (length pool)) = ?S"
    by (simp add: get_words_for_review_eq slice_to_def length_sort_reverse)
  have pre: "get_words_for_review fromisoformat now pool max_words =
      take (min (nat max_words) (length pool)) ?S"
    using assms by (simp add: get_words_for_review_eq slice_to_def length_sort_reverse min_def)
  then have len: "length (get_words_for_review fromisoformat now pool max_words) =
      min (nat max_words) (length pool)"
    by (simp add: length_sort_reverse)
  have zero: "get_words_for_review fromisoformat now pool 0 = []"
    by (simp add: get_words_for_review_eq slice_to_def)
  have stable: "\<forall>p. filter (\<lambda>w. ?P w = p) ?S = filter (\<lambda>w. ?P w = p) pool"
    by (simp add: stable_sort_reverse)
  from full pre len zero stable mset_sort_reverse [of ?P pool] sorted_sort_reverse [of ?P pool]
  show ?thesis by blast
qed

text \<open>
  Scenario D of the specification, with a fourth word: from the pool not due, overdue,
  malformed date, unseen, the first two by priority are the unseen word and the overdue
  word.
\<close>

theorem selection_witness:
  "(0::int) \<le> 2 \<and>
   get_words_for_review fromisoformat_sample sample_now sample_pool 2 = [w_unseen, w_overdue] \<and>
   get_words_for_review fromisoformat_sample sample_now sample_pool 2 =
     take (min (nat 2) (length sample_pool))
       (get_words_for_review fromisoformat_sample sample_now sample_pool (int (length sample_pool)))"
proof -
  have k: "(0::int) \<le> 2" by simp
  have "get_words_for_review fromisoformat_sample sample_now sample_pool 2 =
     take (min (nat 2) (length sample_pool))
       (get_words_for_review fromisoformat_sample sample_now sample_pool (int (length sample_pool)))"
    using selection_is_prefix_of_stable_descending_sort
      [OF k, of fromisoformat_sample sample_now sample_pool]
    by blast
  with k show ?thesis by (simp add: sample_selection)
qed

text \<open>
  Claim C10. For every pool and every \<open>max_words < 0\<close>, \<open>get_words_for_review\<close> returns
  the sorted pool without its last \<open>\<bar>max_words\<bar>\<close> entries, that is, its first
  \<open>length pool - \<bar>max_words\<bar>\<close> entries; the length of the result is
  \<open>max 0 (length pool - \<bar>max_words\<bar>)\<close>. It neither fails nor returns the empty list
  unless \<open>\<bar>max_words\<bar>\<close> reaches the size of the pool.
\<close>

theorem negative_max_words_drops_last_entries:
  assumes "max_words < 0"
  shows "\<exists>sorted_pool.
     get_words_for_review fromisoformat now pool (int (length pool)) = sorted_pool \<and>
     mset sorted_pool = mset pool \<and>
     sorted_wrt (\<lambda>a b. word_priority fromisoformat now b \<le> word_priority fromisoformat now a)
       sorted_pool \<and>
     (\<forall>p. filter (\<lambda>w. word_priority fromisoformat now w = p) sorted_pool =
          filter (\<lambda>w. word_priority fromisoformat now w = p) pool) \<and>
     get_words_for_review fromisoformat now pool max_words =
       rev (drop (nat \<bar>max_words\<bar>) (rev sorted_pool)) \<and>
     get_words_for_review fromisoformat now pool max_words =
       take (length pool - nat \<bar>max_words\<bar>) sorted_pool \<and>
     int (length (get_words_for_review fromisoformat now pool max_words)) =
       max 0 (int (length pool) - \<bar>max_words\<bar>)"
proof -
  let ?P = "word_priority fromisoformat now"
  let ?S = "sort_reverse ?P pool"
  have full: "get_words_for_review fromisoformat now pool (int (length pool)) = ?S"
    by (simp add: get_words_for_review_eq slice_to_def length_sort_reverse)
  have n: "nat (int (length pool) + max_words) = length pool - nat \<bar>max_words\<bar>"
    using assms by linarith
  have tk: "get_words_for_review fromisoformat now pool max_words =
      take (length pool - nat \<bar>max_words\<bar>) ?S"
    using assms by (simp add: get_words_for_review_eq slice_to_def length_sort_reverse n)
  have dr: "rev (drop (nat \<bar>max_words\<bar>) (rev ?S)) = take (length pool - nat \<bar>max_words\<bar>) ?S"
    by (simp add: rev_drop length_sort_reverse)
  have len: "int (length (get_words_for_review fromisoformat now pool max_words)) =
      max 0 (int (length pool) - \<bar>max_words\<bar>)"
    using assms by (simp add: tk length_sort_reverse)
  have stable: "\<forall>p. filter (\<lambda>w. ?P w = p) ?S = filter (\<lambda>w. ?P w = p) pool"
    by (simp add: stable_sort_reverse)
  from full tk dr len stable mset_sort_reverse [of ?P pool] sorted_sort_reverse [of ?P pool]
  show ?thesis by metis
qed

text \<open>With \<open>max_words = -1\<close> the sample pool of four words yields its first three by priority.\<close>

theorem negative_max_words_witness:
  "(- 1::int) < 0 \<and>
   get_words_for_review fromisoformat_sample sample_now sample_pool (- 1) =
     [w_unseen, w_overdue, w_not_due] \<and>
   get_words_for_review fromisoformat_sample sample_now sample_pool (- 1) =
     take (length sample_pool - nat \<bar>- 1\<bar>)
       (get_words_for_review fromisoformat_sample sample_now sample_pool (int (length sample_pool)))"
proof -
  have k: "(- 1::int) < 0" by simp
  have "get_words_for_review fromisoformat_sample sample_now sample_pool (- 1) =
     take (length sample_pool - nat \<bar>- 1\<bar>)
       (get_words_for_review fromisoformat_sample sample_now sample_pool (int (length sample_pool)))"
    using negative_max_words_drops_last_entries
      [OF k, of fromisoformat_sample sample_now sample_pool]
    by blast
  with k show ?thesis by (simp add: sample_selection)
qed

subsection \<open>Missing and malformed timestamps\<close>

text \<open>
  Claim C9. For every pool entry whose stored \<open>next_review\<close> is missing (no progress
  dictionary, no key, \<^verbatim>\<open>None\<close> or the empty string) or is a string that
  \<^verbatim>\<open>datetime.fromisoformat\<close> rejects, the selector does not fail: the value is read as
  a null next review date, the entry is scored by \<open>get_priority_score\<close> with that null
  date, and the entry is returned by every call whose \<open>max_words\<close> is at least the size
  of the pool. (\<open>get_words_for_review\<close> is a total function: the only statement of its
  loop that can raise on these inputs is the parser call, inside the \<^verbatim>\<open>try\<close>.)
\<close>

theorem missing_or_malformed_next_review_is_null:
  assumes "prog = dict_get (progress wd) empty_progress"
    and "next_review prog = None \<or>
         (\<exists>s. next_review prog = Some s \<and> (s = [] \<or> fromisoformat s = None))"
  shows "parse_next_review fromisoformat (next_review prog) = None \<and>
     word_priority fromisoformat now wd =
       get_priority_score now None
         (dict_get (review_count prog) 0)
         (dict_get (easiness prog) INITIAL_EASINESS)
         (dict_get (status prog) ''unknown'') \<and>
     (\<forall>pool max_words. wd \<in> set pool \<and> int (length pool) \<le> max_words \<longrightarrow>
        wd \<in> set (get_words_for_review fromisoformat now pool max_words))"
proof (intro conjI allI impI)
  from assms(2) show p: "parse_next_review fromisoformat (next_review prog) = None"
    by (auto simp: parse_next_review_def)
  with assms(1) show "word_priority fromisoformat now wd =
       get_priority_score now None
         (dict_get (review_count prog) 0)
         (dict_get (easiness prog) INITIAL_EASINESS)
         (dict_get (status prog) ''unknown'')"
    by (simp add: word_priority_def Let_def)
next
  fix pool :: "word_data list" and max_words :: int
  assume "wd \<in> set pool \<and> int (length pool) \<le> max_words"
  then show "wd \<in> set (get_words_for_review fromisoformat now pool max_words)"
    by (simp add: get_words_for_review_whole_pool)
qed

text \<open>
  The sample word whose stored date is \<open>''not a date''\<close> has the priority of a word
  without a date and is among the four words selected from the sample pool.
\<close>

theorem malformed_next_review_witness:
  "next_review (reviewed_twice (Some ''not a date'')) = Some ''not a date'' \<and>
   fromisoformat_sample ''not a date'' = None \<and>
   word_priority fromisoformat_sample sample_now w_malformed =
     get_priority_score sample_now None 2 2.5 ''learning'' \<and>
   w_malformed \<in> set (get_words_for_review fromisoformat_sample sample_now sample_pool 4)"
proof -
  let ?prog = "reviewed_twice (Some ''not a date'')"
  have h1: "?prog = dict_get (progress w_malformed) empty_progress"
    by (simp add: w_malformed_def dict_get_def)
  have nr: "next_review ?prog = Some ''not a date''"
    by (simp add: reviewed_twice_def)
  have un: "fromisoformat_sample ''not a date'' = None"
    by (simp add: fromisoformat_sample_def)
  from nr un have h2: "next_review ?prog = None \<or>
         (\<exists>s. next_review ?prog = Some s \<and> (s = [] \<or> fromisoformat_sample s = None))"
    by simp
  have mem: "w_malformed \<in> set sample_pool \<and> int (length sample_pool) \<le> 4"
    by (simp add: sample_pool_def)
  from missing_or_malformed_next_review_is_null [OF h1 h2, of sample_now]
  have "word_priority fromisoformat_sample sample_now w_malformed =
       get_priority_score sample_now None
         (dict_get (review_count ?prog) 0)
         (dict_get (easiness ?prog) INITIAL_EASINESS)
         (dict_get (status ?prog) ''unknown'')"
    and "w_malformed \<in> set (get_words_for_review fromisoformat_sample sample_now sample_pool 4)"
    using mem by blast+
  with nr un show ?thesis
    by (simp add: reviewed_twice_def dict_get_def)
qed

end
